theory Spec2Isabelle
  imports
    Main
    "HOL-Library.Word"
    "HOL-Library.Char_ord"
    "HOL-Library.List_Lexorder"
begin

section \<open>Data model (internal/models)\<close>

text \<open>
  Go's \<^verbatim>\<open>int\<close> is a 64-bit two's-complement integer on the router this program is built
  for (arm64): it is modelled as a 64-bit word, read as signed by \<^const>\<open>word_sle\<close> and
  \<^const>\<open>word_sless\<close>. Go strings are byte sequences, compared byte by byte: they are
  modelled as \<^typ>\<open>string\<close> with the lexicographic order on lists over the order of
  \<^typ>\<open>char\<close> by byte value. A \<^verbatim>\<open>time.Time\<close> is modelled as a number of nanoseconds
  counted from the zero Time, so that \<^verbatim>\<open>IsZero\<close> is equality with 0.
\<close>

type_synonym goint = "64 word"
type_synonym gotime = int
type_synonym FilterMode = string

record Device =
  d_MAC :: string
  d_Name :: string
  d_FirstSeen :: gotime

record Child =
  c_ID :: string
  c_Username :: string
  c_PasswordHash :: string
  c_Name :: string
  c_DailyQuotaMin :: goint
  c_UsedTodayMin :: goint
  c_FilterMode :: FilterMode
  c_ScheduleID :: string
  c_Devices :: "Device list"
  c_LastResetDate :: string
  c_IsActive :: bool
  c_CreatedAt :: gotime
  c_UpdatedAt :: gotime

record TimeBlock =
  b_DayOfWeek :: goint
  b_StartTime :: string
  b_EndTime :: string
  b_FilterMode :: FilterMode

record Schedule =
  sch_ID :: string
  sch_Name :: string
  sch_TimeBlocks :: "TimeBlock list"
  sch_IsDefault :: bool
  sch_CreatedAt :: gotime
  sch_UpdatedAt :: gotime

record Session =
  s_ID :: string
  s_ChildID :: string
  s_ChildName :: string
  s_MAC :: string
  s_IP :: string
  s_StartedAt :: gotime
  s_LastTickAt :: gotime
  s_IsActive :: bool
  s_SessionToken :: string

record User =
  u_ID :: string
  u_Username :: string
  u_PasswordHash :: string
  u_DisplayName :: string
  u_Role :: string
  u_ForcePasswordChange :: bool
  u_CreatedAt :: gotime
  u_UpdatedAt :: gotime

subsection \<open>Child methods (internal/models/child.go)\<close>

definition RemainingMinutes :: "Child \<Rightarrow> goint" where
  "RemainingMinutes c =
     (let remaining = c_DailyQuotaMin c - c_UsedTodayMin c
      in if word_sless remaining 0 then 0 else remaining)"

fun HasDevice_loop :: "string \<Rightarrow> Device list \<Rightarrow> bool" where
  "HasDevice_loop mac [] = False"
| "HasDevice_loop mac (d # ds) = (if d_MAC d = mac then True else HasDevice_loop mac ds)"

definition HasDevice :: "Child \<Rightarrow> string \<Rightarrow> bool" where
  "HasDevice c mac = HasDevice_loop mac (c_Devices c)"

text \<open>\<^verbatim>\<open>AddDevice\<close> reads the clock for \<^verbatim>\<open>FirstSeen\<close>; the reading is the argument \<open>seen\<close>.\<close>

definition AddDevice :: "gotime \<Rightarrow> string \<Rightarrow> string \<Rightarrow> Child \<Rightarrow> Child" where
  "AddDevice seen mac name c =
     (if HasDevice c mac then c
      else c\<lparr>c_Devices := c_Devices c @ [\<lparr>d_MAC = mac, d_Name = name, d_FirstSeen = seen\<rparr>]\<rparr>)"

subsection \<open>Schedule evaluation (internal/models/schedule.go)\<close>

text \<open>
  \<^verbatim>\<open>IsAllowedNow\<close> reads \<^verbatim>\<open>time.Now()\<close> and uses its weekday (0 = Sunday) and its
  \<^verbatim>\<open>Format("15:04")\<close>. The reading is the argument: a weekday, an hour and a minute of
  local wall-clock time.
\<close>

record wallclock =
  wc_Weekday :: nat
  wc_Hour :: nat
  wc_Minute :: nat

definition digit_char :: "nat \<Rightarrow> char" where
  "digit_char n = ''0123456789'' ! (n mod 10)"

definition two_digits :: "nat \<Rightarrow> string" where
  "two_digits n = [digit_char (n div 10), digit_char n]"

definition Format_1504 :: "wallclock \<Rightarrow> string" where
  "Format_1504 wc = two_digits (wc_Hour wc) @ '':'' @ two_digits (wc_Minute wc)"

fun IsAllowedNow_loop :: "goint \<Rightarrow> string \<Rightarrow> TimeBlock list \<Rightarrow> bool" where
  "IsAllowedNow_loop dayOfWeek currentTime [] = False"
| "IsAllowedNow_loop dayOfWeek currentTime (block # rest) =
     (if b_DayOfWeek block = dayOfWeek
      then (if b_StartTime block \<le> currentTime \<and> currentTime \<le> b_EndTime block
            then True
            else IsAllowedNow_loop dayOfWeek currentTime rest)
      else IsAllowedNow_loop dayOfWeek currentTime rest)"

definition IsAllowedNow :: "wallclock \<Rightarrow> Schedule \<Rightarrow> bool" where
  "IsAllowedNow wc s =
     IsAllowedNow_loop (of_nat (wc_Weekday wc)) (Format_1504 wc) (sch_TimeBlocks s)"

section \<open>The record store (internal/storage/storage.go)\<close>

text \<open>
  The store keeps one slice per record kind in memory and rewrites the kind's JSON file
  after every mutation. The model is the in-memory state: every mutating method changes it
  before the file is written, and no caller modelled here looks at the error a failed
  write returns. Records are held by value; the Go code holds pointers, which makes no
  difference as long as no two records of one kind share an id (the save methods keep
  that: they replace the record with the id, or append).
\<close>

record Storage =
  st_admins :: "User list"
  st_children :: "Child list"
  st_sessions :: "Session list"
  st_schedules :: "Schedule list"

text \<open>The loop shared by the save methods: replace the first record with the id, or append.\<close>

fun save_by :: "('a \<Rightarrow> string) \<Rightarrow> 'a \<Rightarrow> 'a list \<Rightarrow> 'a list" where
  "save_by key x [] = [x]"
| "save_by key x (y # ys) = (if key y = key x then x # ys else y # save_by key x ys)"

text \<open>The loop shared by the delete methods: drop the first record with the id.\<close>

fun delete_by :: "('a \<Rightarrow> string) \<Rightarrow> string \<Rightarrow> 'a list \<Rightarrow> 'a list" where
  "delete_by key i [] = []"
| "delete_by key i (y # ys) = (if key y = i then ys else y # delete_by key i ys)"

definition GetAdminByUsername :: "string \<Rightarrow> Storage \<Rightarrow> User option" where
  "GetAdminByUsername username st = find (\<lambda>a. u_Username a = username) (st_admins st)"

definition ListChildren :: "Storage \<Rightarrow> Child list" where
  "ListChildren st = st_children st"

definition GetChild :: "string \<Rightarrow> Storage \<Rightarrow> Child option" where
  "GetChild i st = find (\<lambda>c. c_ID c = i) (st_children st)"

definition GetChildByUsername :: "string \<Rightarrow> Storage \<Rightarrow> Child option" where
  "GetChildByUsername username st = find (\<lambda>c. c_Username c = username) (st_children st)"

definition SaveChild :: "Child \<Rightarrow> Storage \<Rightarrow> Storage" where
  "SaveChild child st = st\<lparr>st_children := save_by c_ID child (st_children st)\<rparr>"

definition DeleteChild :: "string \<Rightarrow> Storage \<Rightarrow> Storage" where
  "DeleteChild i st = st\<lparr>st_children := delete_by c_ID i (st_children st)\<rparr>"

fun ListSessions_loop :: "Session list \<Rightarrow> Session list \<Rightarrow> Session list" where
  "ListSessions_loop result [] = result"
| "ListSessions_loop result (sess # rest) =
     ListSessions_loop (if s_IsActive sess then result @ [sess] else result) rest"

definition ListSessions :: "Storage \<Rightarrow> Session list" where
  "ListSessions st = ListSessions_loop [] (st_sessions st)"

definition GetSession :: "string \<Rightarrow> Storage \<Rightarrow> Session option" where
  "GetSession i st = find (\<lambda>sess. s_ID sess = i) (st_sessions st)"

definition GetSessionByMAC :: "string \<Rightarrow> Storage \<Rightarrow> Session option" where
  "GetSessionByMAC mac st = find (\<lambda>sess. s_MAC sess = mac \<and> s_IsActive sess) (st_sessions st)"

definition SaveSession :: "Session \<Rightarrow> Storage \<Rightarrow> Storage" where
  "SaveSession session st = st\<lparr>st_sessions := save_by s_ID session (st_sessions st)\<rparr>"

definition DeleteSession :: "string \<Rightarrow> Storage \<Rightarrow> Storage" where
  "DeleteSession i st = st\<lparr>st_sessions := delete_by s_ID i (st_sessions st)\<rparr>"

definition GetSchedule :: "string \<Rightarrow> Storage \<Rightarrow> Schedule option" where
  "GetSchedule i st = find (\<lambda>sched. sch_ID sched = i) (st_schedules st)"

fun ResetDailyQuotas_loop :: "string \<Rightarrow> Child list \<Rightarrow> Child list" where
  "ResetDailyQuotas_loop dateStr [] = []"
| "ResetDailyQuotas_loop dateStr (c # cs) =
     c\<lparr>c_UsedTodayMin := 0, c_LastResetDate := dateStr\<rparr> # ResetDailyQuotas_loop dateStr cs"

definition ResetDailyQuotas :: "string \<Rightarrow> Storage \<Rightarrow> Storage" where
  "ResetDailyQuotas dateStr st =
     st\<lparr>st_children := ResetDailyQuotas_loop dateStr (st_children st)\<rparr>"

fun ClearInactiveSessions_loop :: "Session list \<Rightarrow> Session list \<Rightarrow> Session list" where
  "ClearInactiveSessions_loop active [] = active"
| "ClearInactiveSessions_loop active (sess # rest) =
     ClearInactiveSessions_loop (if s_IsActive sess then active @ [sess] else active) rest"

definition ClearInactiveSessions :: "Storage \<Rightarrow> Storage" where
  "ClearInactiveSessions st =
     st\<lparr>st_sessions := ClearInactiveSessions_loop [] (st_sessions st)\<rparr>"

section \<open>The controller client (NDSCtl, in internal/services)\<close>

text \<open>
  \<^verbatim>\<open>Auth\<close> and \<^verbatim>\<open>Deauth\<close> run the external tool \<^verbatim>\<open>ndsctl\<close> and return its error.
  The model records every invocation, oldest first, and takes the tool's behaviour as a
  parameter: \<open>fails k\<close> says that invocation number \<open>k\<close> (counted from 0 over the whole
  trace) returns an error. Log output is recorded the same way.
\<close>

datatype nds_call =
    NdsAuth string goint goint goint
  | NdsDeauth string

datatype log_line =
    LogDeauthenticating string string string
  | LogDeauthError string
  | LogResetting string
  | LogAuthError

record world =
  w_store :: Storage
  w_nds :: "nds_call list"
  w_log :: "log_line list"

definition ndsctl_exec :: "(nat \<Rightarrow> bool) \<Rightarrow> nds_call \<Rightarrow> world \<Rightarrow> bool \<times> world" where
  "ndsctl_exec fails call w = (fails (length (w_nds w)), w\<lparr>w_nds := w_nds w @ [call]\<rparr>)"

definition log_Printf :: "log_line \<Rightarrow> world \<Rightarrow> world" where
  "log_Printf l w = w\<lparr>w_log := w_log w @ [l]\<rparr>"

section \<open>The reconciliation loop (internal/services/ticker.go)\<close>

text \<open>
  \<^verbatim>\<open>Time.Sub\<close> returns a \<^verbatim>\<open>Duration\<close>, a signed 64-bit count of nanoseconds, and
  saturates at the ends of that range.
\<close>

definition Sub :: "gotime \<Rightarrow> gotime \<Rightarrow> int" where
  "Sub t u =
     (let d = t - u
      in if d < - (2 ^ 63) then - (2 ^ 63) else if 2 ^ 63 - 1 < d then 2 ^ 63 - 1 else d)"

text \<open>
  \<^verbatim>\<open>int(d.Minutes())\<close>: \<^verbatim>\<open>Minutes\<close> returns the duration in minutes as a float64 and
  the conversion truncates toward zero. The model is the truncated quotient of the
  nanosecond count by one minute; the float64 value truncates to this quotient unless the
  duration is longer than six months and within a microsecond of the next whole minute.
\<close>

definition Minute :: int where
  "Minute = 60000000000"

definition whole_minutes :: "int \<Rightarrow> int" where
  "whole_minutes d = (if 0 \<le> d then d div Minute else - ((- d) div Minute))"

definition deauthSession :: "(nat \<Rightarrow> bool) \<Rightarrow> Session \<Rightarrow> string \<Rightarrow> world \<Rightarrow> world" where
  "deauthSession fails session reason w =
     (let w1 = log_Printf (LogDeauthenticating (s_MAC session) (s_ChildName session) reason) w;
          (err, w2) = ndsctl_exec fails (NdsDeauth (s_MAC session)) w1;
          w3 = (if err then log_Printf (LogDeauthError (s_MAC session)) w2 else w2)
      in w3\<lparr>w_store := SaveSession (session\<lparr>s_IsActive := False\<rparr>) (w_store w3)\<rparr>)"

fun needsReset_loop :: "string \<Rightarrow> Child list \<Rightarrow> bool" where
  "needsReset_loop todayStr [] = False"
| "needsReset_loop todayStr (child # rest) =
     (if c_LastResetDate child \<noteq> todayStr then True else needsReset_loop todayStr rest)"

text \<open>\<open>todayStr\<close> is \<^verbatim>\<open>now.Format("2006-01-02")\<close>.\<close>

definition checkDailyReset :: "string \<Rightarrow> world \<Rightarrow> world" where
  "checkDailyReset todayStr w =
     (if needsReset_loop todayStr (ListChildren (w_store w))
      then (let w1 = log_Printf (LogResetting todayStr) w
            in w1\<lparr>w_store := ResetDailyQuotas todayStr (w_store w1)\<rparr>)
      else w)"

definition minutesToAdd :: "gotime \<Rightarrow> Session \<Rightarrow> goint" where
  "minutesToAdd now session =
     (if s_LastTickAt session = 0
      then of_int (whole_minutes (Sub now (s_StartedAt session)))
      else of_int (whole_minutes (Sub now (s_LastTickAt session))))"

text \<open>
  The body of the loop over the active sessions. \<open>wc\<close> is the clock reading of the
  schedule check made for this session.
\<close>

definition tick_session ::
  "(nat \<Rightarrow> bool) \<Rightarrow> gotime \<Rightarrow> wallclock \<Rightarrow> world \<Rightarrow> Session \<Rightarrow> world" where
  "tick_session fails now wc w session =
     (if \<not> s_IsActive session then w
      else case GetChild (s_ChildID session) (w_store w) of
        None \<Rightarrow> deauthSession fails session ''child_deleted'' w
      | Some child \<Rightarrow>
          (let m = minutesToAdd now session;
               child1 = (if word_sless 0 m
                         then child\<lparr>c_UsedTodayMin := c_UsedTodayMin child + m,
                                    c_UpdatedAt := now\<rparr>
                         else child);
               session1 = (if word_sless 0 m then session\<lparr>s_LastTickAt := now\<rparr> else session);
               w1 = (if word_sless 0 m
                     then w\<lparr>w_store := SaveSession session1 (SaveChild child1 (w_store w))\<rparr>
                     else w)
           in if word_sle (c_DailyQuotaMin child1) (c_UsedTodayMin child1)
              then deauthSession fails session1 ''quota_exceeded'' w1
              else if c_ScheduleID child1 \<noteq> []
              then (case GetSchedule (c_ScheduleID child1) (w_store w1) of
                      None \<Rightarrow> w1
                    | Some schedule \<Rightarrow>
                        if \<not> IsAllowedNow wc schedule
                        then deauthSession fails session1 ''schedule_ended'' w1
                        else w1)
              else w1))"

fun tick_loop ::
  "(nat \<Rightarrow> bool) \<Rightarrow> gotime \<Rightarrow> (Session \<Rightarrow> wallclock) \<Rightarrow> world \<Rightarrow> Session list \<Rightarrow> world" where
  "tick_loop fails now rd w [] = w"
| "tick_loop fails now rd w (session # rest) =
     tick_loop fails now rd (tick_session fails now (rd session) w session) rest"

text \<open>
  One tick. \<open>now\<close> is the tick's reading of the clock, \<open>todayStr\<close> its date string and
  \<open>rd session\<close> the reading that the schedule check for \<open>session\<close> takes.
\<close>

definition tick ::
  "(nat \<Rightarrow> bool) \<Rightarrow> gotime \<Rightarrow> string \<Rightarrow> (Session \<Rightarrow> wallclock) \<Rightarrow> world \<Rightarrow> world" where
  "tick fails now todayStr rd w =
     (let w1 = checkDailyReset todayStr w
      in tick_loop fails now rd w1 (ListSessions (w_store w1)))"

section \<open>Predicates used in the statements and proofs\<close>




section \<open>Go library functions used by the captive-portal handlers\<close>

text \<open>
  The handlers call \<^verbatim>\<open>strings\<close>, \<^verbatim>\<open>encoding/base64\<close> and \<^verbatim>\<open>net/url\<close>. These library
  functions are modelled on byte strings from their documented behaviour. Functions that
  look at Unicode classes (\<^verbatim>\<open>TrimSpace\<close>, \<^verbatim>\<open>ToLower\<close>) are modelled for ASCII: white
  space and letters outside ASCII are left as they are.
\<close>

definition byte_char :: "nat \<Rightarrow> char" where
  "byte_char n =
     Char (odd n) (odd (n div 2)) (odd (n div 4)) (odd (n div 8))
          (odd (n div 16)) (odd (n div 32)) (odd (n div 64)) (odd (n div 128))"

definition byte_of :: "char \<Rightarrow> nat" where
  "byte_of c = of_char c"

definition HasPrefix :: "string \<Rightarrow> string \<Rightarrow> bool" where
  "HasPrefix s p \<longleftrightarrow> take (length p) s = p"

fun Contains :: "string \<Rightarrow> string \<Rightarrow> bool" where
  "Contains [] sub = (sub = [])"
| "Contains (c # cs) sub = (if HasPrefix (c # cs) sub then True else Contains cs sub)"

text \<open>\<^verbatim>\<open>strings.Split(s, sep)\<close> for a non-empty separator; \<open>cur\<close> is the piece being read.\<close>

function Split_from :: "string \<Rightarrow> string \<Rightarrow> string \<Rightarrow> string list" where
  "Split_from sep cur [] = [cur]"
| "Split_from sep cur (c # cs) =
     (if sep \<noteq> [] \<and> HasPrefix (c # cs) sep
      then cur # Split_from sep [] (drop (length sep) (c # cs))
      else Split_from sep (cur @ [c]) cs)"
  by pat_completeness auto
termination
  by (relation "measure (\<lambda>(sep, cur, s). length s)") auto

definition Split :: "string \<Rightarrow> string \<Rightarrow> string list" where
  "Split s sep = Split_from sep [] s"

text \<open>\<^verbatim>\<open>strings.SplitN(s, "=", 2)\<close>: cut at the first \<^verbatim>\<open>=\<close>, if there is one.\<close>

fun SplitN2_from :: "char \<Rightarrow> string \<Rightarrow> string \<Rightarrow> string list" where
  "SplitN2_from sep cur [] = [cur]"
| "SplitN2_from sep cur (c # cs) =
     (if c = sep then [cur, cs] else SplitN2_from sep (cur @ [c]) cs)"

definition SplitN2 :: "string \<Rightarrow> char \<Rightarrow> string list" where
  "SplitN2 s sep = SplitN2_from sep [] s"

definition isSpace :: "char \<Rightarrow> bool" where
  "isSpace c \<longleftrightarrow> c \<in> set [CHR 0x09, CHR 0x0A, CHR 0x0B, CHR 0x0C, CHR 0x0D, CHR '' '']"

definition TrimSpace :: "string \<Rightarrow> string" where
  "TrimSpace s = rev (dropWhile isSpace (rev (dropWhile isSpace s)))"

definition TrimRight :: "string \<Rightarrow> string \<Rightarrow> string" where
  "TrimRight s cutset = rev (dropWhile (\<lambda>c. c \<in> set cutset) (rev s))"

definition isUpper :: "char \<Rightarrow> bool" where
  "isUpper c \<longleftrightarrow> CHR ''A'' \<le> c \<and> c \<le> CHR ''Z''"

definition isLower :: "char \<Rightarrow> bool" where
  "isLower c \<longleftrightarrow> CHR ''a'' \<le> c \<and> c \<le> CHR ''z''"

definition isDigit :: "char \<Rightarrow> bool" where
  "isDigit c \<longleftrightarrow> CHR ''0'' \<le> c \<and> c \<le> CHR ''9''"

definition ToLower :: "string \<Rightarrow> string" where
  "ToLower s = map (\<lambda>c. if isUpper c then byte_char (byte_of c + 32) else c) s"

text \<open>\<^verbatim>\<open>strings.ReplaceAll(s, old, "")\<close> for a non-empty \<open>old\<close>.\<close>

function RemoveAll :: "string \<Rightarrow> string \<Rightarrow> string" where
  "RemoveAll [] old = []"
| "RemoveAll (c # cs) old =
     (if old \<noteq> [] \<and> HasPrefix (c # cs) old
      then RemoveAll (drop (length old) (c # cs)) old
      else c # RemoveAll cs old)"
  by pat_completeness auto
termination
  by (relation "measure (\<lambda>(s, old). length s)") auto

text \<open>\<^verbatim>\<open>strings.ReplaceAll(s, old, new)\<close> for a single byte \<open>old\<close>.\<close>

definition ReplaceAll_char :: "string \<Rightarrow> char \<Rightarrow> string \<Rightarrow> string" where
  "ReplaceAll_char s old new = concat (map (\<lambda>c. if c = old then new else [c]) s)"

subsection \<open>url.QueryEscape and url.QueryUnescape\<close>

definition hex_upper :: "nat \<Rightarrow> char" where
  "hex_upper n = ''0123456789ABCDEF'' ! (n mod 16)"

definition shouldEscape :: "char \<Rightarrow> bool" where
  "shouldEscape c \<longleftrightarrow>
     \<not> (isLower c \<or> isUpper c \<or> isDigit c \<or> c \<in> set ''-_.~'')"

definition QueryEscape :: "string \<Rightarrow> string" where
  "QueryEscape s =
     concat (map (\<lambda>c. if c = CHR '' '' then ''+''
                      else if shouldEscape c
                      then [CHR ''%'', hex_upper (byte_of c div 16), hex_upper (byte_of c)]
                      else [c]) s)"

definition ishex :: "char \<Rightarrow> bool" where
  "ishex c \<longleftrightarrow> isDigit c \<or> (CHR ''a'' \<le> c \<and> c \<le> CHR ''f'') \<or> (CHR ''A'' \<le> c \<and> c \<le> CHR ''F'')"

definition unhex :: "char \<Rightarrow> nat" where
  "unhex c =
     (if isDigit c then byte_of c - 48
      else if CHR ''a'' \<le> c \<and> c \<le> CHR ''f'' then byte_of c - 97 + 10
      else if CHR ''A'' \<le> c \<and> c \<le> CHR ''F'' then byte_of c - 65 + 10
      else 0)"

text \<open>\<^verbatim>\<open>url.QueryUnescape\<close>: \<open>None\<close> is the error for a \<^verbatim>\<open>%\<close> not followed by two hex digits.\<close>

fun QueryUnescape :: "string \<Rightarrow> string option" where
  "QueryUnescape [] = Some []"
| "QueryUnescape (c # cs) =
     (if c = CHR ''%''
      then (case cs of
              a # b # rest \<Rightarrow>
                if ishex a \<and> ishex b
                then map_option ((#) (byte_char (16 * unhex a + unhex b))) (QueryUnescape rest)
                else None
            | _ \<Rightarrow> None)
      else map_option ((#) (if c = CHR ''+'' then CHR '' '' else c)) (QueryUnescape cs))"

subsection \<open>encoding/base64\<close>

definition encodeStd :: string where
  "encodeStd = ''ABCDEFGHIJKLMNOPQRSTUVWXYZabcdefghijklmnopqrstuvwxyz0123456789+/''"

definition encodeURL :: string where
  "encodeURL = ''ABCDEFGHIJKLMNOPQRSTUVWXYZabcdefghijklmnopqrstuvwxyz0123456789-_''"

fun index_from :: "nat \<Rightarrow> char \<Rightarrow> string \<Rightarrow> nat option" where
  "index_from n c [] = None"
| "index_from n c (a # as) = (if a = c then Some n else index_from (Suc n) c as)"

text \<open>
  An encoding is its alphabet and whether it pads with \<^verbatim>\<open>=\<close>. \<^verbatim>\<open>DecodeString\<close> skips
  carriage returns and line feeds, reads quanta of four characters, accepts padding only
  at the end of the last quantum, and returns an error (\<open>None\<close>) for any other character,
  for an incomplete padded quantum and for data after the padding.
\<close>

fun decode_quanta :: "string \<Rightarrow> bool \<Rightarrow> string \<Rightarrow> string option" where
  "decode_quanta alpha padded (a # b # c # d # rest) =
     (case (index_from 0 a alpha, index_from 0 b alpha) of
        (Some x, Some y) \<Rightarrow>
          (case index_from 0 c alpha of
             Some z \<Rightarrow>
               (case index_from 0 d alpha of
                  Some u \<Rightarrow>
                    map_option
                      ((@) [byte_char (x * 4 + y div 16), byte_char (y * 16 + z div 4),
                            byte_char (z * 64 + u)])
                      (decode_quanta alpha padded rest)
                | None \<Rightarrow>
                    if padded \<and> d = CHR ''='' \<and> rest = []
                    then Some [byte_char (x * 4 + y div 16), byte_char (y * 16 + z div 4)]
                    else None)
           | None \<Rightarrow>
               if padded \<and> c = CHR ''='' \<and> d = CHR ''='' \<and> rest = []
               then Some [byte_char (x * 4 + y div 16)]
               else None)
      | _ \<Rightarrow> None)"
| "decode_quanta alpha padded [a, b, c] =
     (if padded then None
      else case (index_from 0 a alpha, index_from 0 b alpha, index_from 0 c alpha) of
             (Some x, Some y, Some z) \<Rightarrow>
               Some [byte_char (x * 4 + y div 16), byte_char (y * 16 + z div 4)]
           | _ \<Rightarrow> None)"
| "decode_quanta alpha padded [a, b] =
     (if padded then None
      else case (index_from 0 a alpha, index_from 0 b alpha) of
             (Some x, Some y) \<Rightarrow> Some [byte_char (x * 4 + y div 16)]
           | _ \<Rightarrow> None)"
| "decode_quanta alpha padded [a] = None"
| "decode_quanta alpha padded [] = Some []"

definition DecodeString :: "string \<Rightarrow> bool \<Rightarrow> string \<Rightarrow> string option" where
  "DecodeString alpha padded s =
     decode_quanta alpha padded (filter (\<lambda>c. c \<noteq> CHR 0x0D \<and> c \<noteq> CHR 0x0A) s)"

definition StdEncoding_DecodeString :: "string \<Rightarrow> string option" where
  "StdEncoding_DecodeString = DecodeString encodeStd True"

definition URLEncoding_DecodeString :: "string \<Rightarrow> string option" where
  "URLEncoding_DecodeString = DecodeString encodeURL True"

definition RawStdEncoding_DecodeString :: "string \<Rightarrow> string option" where
  "RawStdEncoding_DecodeString = DecodeString encodeStd False"

fun encode_quanta :: "string \<Rightarrow> nat list \<Rightarrow> string" where
  "encode_quanta alpha (a # b # c # rest) =
     [alpha ! (a div 4), alpha ! ((a mod 4) * 16 + b div 16),
      alpha ! ((b mod 16) * 4 + c div 64), alpha ! (c mod 64)] @ encode_quanta alpha rest"
| "encode_quanta alpha [a, b] =
     [alpha ! (a div 4), alpha ! ((a mod 4) * 16 + b div 16), alpha ! ((b mod 16) * 4), CHR ''='']"
| "encode_quanta alpha [a] =
     [alpha ! (a div 4), alpha ! ((a mod 4) * 16), CHR ''='', CHR ''='']"
| "encode_quanta alpha [] = []"

definition StdEncoding_EncodeToString :: "string \<Rightarrow> string" where
  "StdEncoding_EncodeToString s = encode_quanta encodeStd (map byte_of s)"

section \<open>Authentication (internal/services/auth.go)\<close>

text \<open>
  \<^verbatim>\<open>CheckPassword\<close> compares a password with a bcrypt hash. The comparison is a parameter
  \<open>chk password hash\<close> of the model.
\<close>

datatype auth_error = ErrInvalidCredentials | ErrUserNotFound | ErrAccountDisabled

definition AuthenticateAdmin ::
  "(string \<Rightarrow> string \<Rightarrow> bool) \<Rightarrow> string \<Rightarrow> string \<Rightarrow> Storage \<Rightarrow> auth_error + User" where
  "AuthenticateAdmin chk username password st =
     (case GetAdminByUsername username st of
        None \<Rightarrow> Inl ErrInvalidCredentials
      | Some admin \<Rightarrow>
          if \<not> chk password (u_PasswordHash admin) then Inl ErrInvalidCredentials
          else Inr admin)"

definition AuthenticateChild ::
  "(string \<Rightarrow> string \<Rightarrow> bool) \<Rightarrow> string \<Rightarrow> string \<Rightarrow> Storage \<Rightarrow> auth_error + Child" where
  "AuthenticateChild chk username password st =
     (case GetChildByUsername username st of
        None \<Rightarrow> Inl ErrUserNotFound
      | Some child \<Rightarrow>
          if \<not> chk password (c_PasswordHash child) then Inl ErrInvalidCredentials
          else if \<not> c_IsActive child then Inl ErrAccountDisabled
          else Inr child)"

section \<open>The captive-portal handler wired by the router (src/unnamed/part_002)\<close>

text \<open>
  The router (src/unnamed/part_001) builds the handler with
  \<^verbatim>\<open>NewFASHandler(storage, ndsctl, authSvc, config)\<close> and routes \<^verbatim>\<open>/fas/\<close>,
  \<^verbatim>\<open>/fas/auth\<close> and \<^verbatim>\<open>/portal\<close> to its \<^verbatim>\<open>HandleFAS\<close>, \<^verbatim>\<open>HandleAuth\<close> and
  \<^verbatim>\<open>HandlePortal\<close>: that is the \<^verbatim>\<open>FASHandler\<close> of \<^verbatim>\<open>part_002\<close>, modelled here under the
  source's names.
\<close>

record FASData =
  f_HID :: string
  f_ClientIP :: string
  f_ClientMAC :: string
  f_GatewayName :: string
  f_GatewayHash :: string
  f_AuthDir :: string
  f_OriginURL :: string

definition FASData_zero :: FASData where
  "FASData_zero =
     \<lparr>f_HID = [], f_ClientIP = [], f_ClientMAC = [], f_GatewayName = [], f_GatewayHash = [],
      f_AuthDir = [], f_OriginURL = []\<rparr>"

text \<open>The \<^verbatim>\<open>switch key\<close> of \<^verbatim>\<open>parseFASData\<close>.\<close>

definition switch_key :: "string \<Rightarrow> string \<Rightarrow> FASData \<Rightarrow> FASData" where
  "switch_key key v fas =
     (if key = ''hid'' then fas\<lparr>f_HID := v\<rparr>
      else if key = ''clientip'' then fas\<lparr>f_ClientIP := v\<rparr>
      else if key = ''clientmac'' then fas\<lparr>f_ClientMAC := v\<rparr>
      else if key = ''gatewayname'' then fas\<lparr>f_GatewayName := v\<rparr>
      else if key = ''gatewayhash'' then fas\<lparr>f_GatewayHash := v\<rparr>
      else if key = ''authdir'' then fas\<lparr>f_AuthDir := v\<rparr>
      else if key = ''originurl'' then fas\<lparr>f_OriginURL := v\<rparr>
      else fas)"

fun parseFASData_loop :: "FASData \<Rightarrow> string list \<Rightarrow> FASData" where
  "parseFASData_loop fas [] = fas"
| "parseFASData_loop fas (pair # rest) =
     (case SplitN2 pair CHR ''='' of
        [k, v] \<Rightarrow> parseFASData_loop (switch_key (TrimSpace k) (TrimSpace v) fas) rest
      | _ \<Rightarrow> parseFASData_loop fas rest)"

definition parseFASData :: "string \<Rightarrow> FASData" where
  "parseFASData data = parseFASData_loop FASData_zero (Split data '', '')"

text \<open>
  What a handler writes: a redirect (\<^verbatim>\<open>http.Redirect\<close> with its URL argument and
  status), a JSON error (\<^verbatim>\<open>Error\<close> with status and message), the success page, or one
  of the two JSON objects of the second handler below.
\<close>

datatype response =
    Redirect string nat
  | ErrorJSON nat string
  | SuccessPage string goint
  | AdminJSON string goint bool
  | ChildJSON string goint string


record AuthRequest =
  r_Username :: string
  r_Password :: string
  r_HID :: string
  r_MAC :: string
  r_IP :: string
  r_AuthDir :: string
  r_OriginURL :: string

text \<open>
  The request as the handlers read it: method, content type, the result of decoding the
  body as JSON (\<open>None\<close> when \<^verbatim>\<open>ParseJSON\<close> returns an error), the form values, and the
  host part of the remote address.
\<close>

record http_request =
  rq_Method :: string
  rq_ContentType :: string
  rq_JSON :: "AuthRequest option"
  rq_Form :: AuthRequest
  rq_RemoteHost :: string

text \<open>
  What a login reads from outside the store: the password check, the id drawn by
  \<^verbatim>\<open>GenerateID\<close>, the clock readings taken for a new device, for the session and by the
  schedule check, and the behaviour of the external tool. The last four fields are read
  by the second handler only: the ARP table lookup, the token issued for an
  administrator (\<open>None\<close> when signing fails), the configured token life and gateway.
\<close>

record login_env =
  e_CheckPassword :: "string \<Rightarrow> string \<Rightarrow> bool"
  e_GenerateID :: string
  e_FirstSeen :: gotime
  e_StartedAt :: gotime
  e_Wall :: wallclock
  e_fails :: "nat \<Rightarrow> bool"
  e_getMACFromIP :: "string \<Rightarrow> string"
  e_GenerateToken :: "User \<Rightarrow> string option"
  e_JWTExpiryHours :: goint
  e_GatewayIP :: string
  e_Port :: string

definition errorURL :: "AuthRequest \<Rightarrow> string \<Rightarrow> string" where
  "errorURL req msg =
     ''/portal?hid='' @ QueryEscape (r_HID req)
     @ ''&mac='' @ QueryEscape (r_MAC req)
     @ ''&ip='' @ QueryEscape (r_IP req)
     @ ''&authdir='' @ QueryEscape (r_AuthDir req)
     @ ''&originurl='' @ QueryEscape (r_OriginURL req)
     @ ''&error='' @ QueryEscape msg"

definition schedule_forbids :: "wallclock \<Rightarrow> Child \<Rightarrow> Storage \<Rightarrow> bool" where
  "schedule_forbids wc child st \<longleftrightarrow>
     c_ScheduleID child \<noteq> [] \<and>
     (case GetSchedule (c_ScheduleID child) st of
        None \<Rightarrow> False
      | Some schedule \<Rightarrow> \<not> IsAllowedNow wc schedule)"

definition new_session :: "login_env \<Rightarrow> Child \<Rightarrow> AuthRequest \<Rightarrow> Session" where
  "new_session e child req =
     \<lparr>s_ID = e_GenerateID e, s_ChildID = c_ID child, s_ChildName = c_Name child,
      s_MAC = r_MAC req, s_IP = r_IP req, s_StartedAt = e_StartedAt e, s_LastTickAt = 0,
      s_IsActive = True, s_SessionToken = []\<rparr>"

text \<open>\<^verbatim>\<open>HandleAuth\<close> from the authentication of the child on, for the parsed request.\<close>

definition HandleAuth_login :: "login_env \<Rightarrow> AuthRequest \<Rightarrow> world \<Rightarrow> response \<times> world" where
  "HandleAuth_login e req w =
     (case AuthenticateChild (e_CheckPassword e) (r_Username req) (r_Password req) (w_store w) of
        Inl err \<Rightarrow> (Redirect (errorURL req ''Invalid username or password'') 302, w)
      | Inr child \<Rightarrow>
          if word_sle (RemainingMinutes child) 0
          then (Redirect (errorURL req ''No time remaining for today'') 302, w)
          else if schedule_forbids (e_Wall e) child (w_store w)
          then (Redirect (errorURL req ''Internet access not allowed at this time'') 302, w)
          else
            (let child1 = (if \<not> HasDevice child (r_MAC req)
                           then AddDevice (e_FirstSeen e) (r_MAC req) ''Auto-discovered device'' child
                           else child);
                 w1 = (if \<not> HasDevice child (r_MAC req)
                       then w\<lparr>w_store := SaveChild child1 (w_store w)\<rparr>
                       else w);
                 session = new_session e child1 req;
                 w2 = w1\<lparr>w_store := SaveSession session (w_store w1)\<rparr>;
                 remainingMin = RemainingMinutes child1;
                 (err, w3) = ndsctl_exec (e_fails e) (NdsAuth (r_MAC req) remainingMin 0 0) w2;
                 w4 = (if err then log_Printf LogAuthError w3 else w3)
             in (if r_OriginURL req \<noteq> [] \<and> r_OriginURL req \<noteq> ''null''
                 then Redirect (r_OriginURL req) 302
                 else SuccessPage (c_Name child1) remainingMin,
                 w4)))"

definition HandleAuth :: "login_env \<Rightarrow> http_request \<Rightarrow> world \<Rightarrow> response \<times> world" where
  "HandleAuth e r w =
     (if rq_Method r \<noteq> ''POST'' then (ErrorJSON 405 ''method not allowed'', w)
      else if Contains (rq_ContentType r) ''application/json''
      then (case rq_JSON r of
              None \<Rightarrow> (ErrorJSON 400 ''invalid request'', w)
            | Some req \<Rightarrow> HandleAuth_login e req w)
      else HandleAuth_login e (rq_Form r) w)"

section \<open>The second captive-portal handler (in internal/api/middleware/auth.go)\<close>

text \<open>
  The text of internal/api/middleware/auth.go continues, after the system handler, with a
  second \<^verbatim>\<open>FASHandler\<close> of package \<^verbatim>\<open>handlers\<close>, whose constructor takes the token
  middleware as a fifth argument. Its functions are modelled under the source's names
  with the suffix \<open>_v2\<close>. Its log output is left out.
\<close>

function strip_null :: "string \<Rightarrow> string" where
  "strip_null rawString =
     (if Contains rawString ''(null)''
      then strip_null (RemoveAll rawString ''(null)'')
      else rawString)"
  by pat_completeness auto
termination
proof (relation "measure length")
  show "wf (measure length)" by simp
next
  fix rawString :: string
  have le: "length (RemoveAll s ''(null)'') \<le> length s" for s
  proof (induction s "''(null)''" rule: RemoveAll.induct)
    case 1
    then show ?case by simp
  next
    case (2 c cs)
    then show ?case by (auto simp add: le_Suc_eq)
  qed
  have lt: "Contains s ''(null)'' \<Longrightarrow> length (RemoveAll s ''(null)'') < length s" for s
  proof (induction s)
    case Nil
    then show ?case by simp
  next
    case (Cons c cs)
    show ?case
    proof (cases "HasPrefix (c # cs) ''(null)''")
      case True
      let ?d = "drop (length ''(null)'') (c # cs)"
      have eq: "RemoveAll (c # cs) ''(null)'' = RemoveAll ?d ''(null)''"
        using True by simp
      have "length (RemoveAll ?d ''(null)'') \<le> length ?d" by (rule le)
      also have "length ?d < length (c # cs)" by simp
      finally show ?thesis unfolding eq .
    next
      case False
      then have "Contains cs ''(null)''" using Cons.prems by simp
      from Cons.IH [OF this] False show ?thesis by simp
    qed
  qed
  assume "Contains rawString ''(null)''"
  then show "(RemoveAll rawString ''(null)'', rawString) \<in> measure length"
    using lt by simp
qed

declare strip_null.simps [simp del]

definition printable :: "char \<Rightarrow> bool" where
  "printable c \<longleftrightarrow> CHR '' '' \<le> c \<and> c \<le> CHR ''~''"

text \<open>
  \<^verbatim>\<open>strings.Map\<close> with a function that drops every rune outside 32..126: every byte of
  a rune above 126, and every byte that is not valid UTF-8, is at least 128, so the
  result keeps exactly the bytes in 32..126.
\<close>

definition sanitizeHeaderValue :: "string \<Rightarrow> string" where
  "sanitizeHeaderValue s = filter printable s"

definition safeURLUnescape :: "string \<Rightarrow> string" where
  "safeURLUnescape s = (case QueryUnescape s of Some unescaped \<Rightarrow> unescaped | None \<Rightarrow> s)"

fun join_pairs :: "string \<Rightarrow> string" where
  "join_pairs (a # b # c # rest) = a # b # CHR '':'' # join_pairs (c # rest)"
| "join_pairs s = s"

definition normalizeMAC :: "string \<Rightarrow> string" where
  "normalizeMAC mac0 =
     (let mac = ToLower (ReplaceAll_char (ReplaceAll_char (ReplaceAll_char mac0 CHR '':'' [])
                                           CHR ''-'' []) CHR ''.'' [])
      in if length mac = 12 then join_pairs mac else mac)"

fun parseFASData_v2_loop :: "FASData \<Rightarrow> string list \<Rightarrow> FASData" where
  "parseFASData_v2_loop fas [] = fas"
| "parseFASData_v2_loop fas (pair0 # rest) =
     (let pair = TrimSpace pair0
      in if pair = [] then parseFASData_v2_loop fas rest
         else case SplitN2 pair CHR ''='' of
           [k, v] \<Rightarrow>
             (let key = TrimSpace (ToLower k); val = TrimSpace v
              in if val = [] \<or> val = ''(null)'' then parseFASData_v2_loop fas rest
                 else parseFASData_v2_loop (switch_key key val fas) rest)
         | _ \<Rightarrow> parseFASData_v2_loop fas rest)"

definition parseFASData_v2 :: "string \<Rightarrow> FASData" where
  "parseFASData_v2 data = parseFASData_v2_loop FASData_zero (Split data '', '')"

text \<open>The four decoding attempts of \<^verbatim>\<open>HandleFAS\<close>, on the parameter with spaces turned into plus signs.\<close>

definition decode_v2 :: "string \<Rightarrow> string option" where
  "decode_v2 fasParam =
     (case StdEncoding_DecodeString fasParam of
        Some decoded \<Rightarrow> Some decoded
      | None \<Rightarrow>
          (let m = length fasParam mod 4;
               padded = (if m \<noteq> 0 then fasParam @ replicate (4 - m) CHR ''='' else fasParam)
           in case StdEncoding_DecodeString padded of
                Some decoded \<Rightarrow> Some decoded
              | None \<Rightarrow>
                  (case URLEncoding_DecodeString fasParam of
                     Some decoded \<Rightarrow> Some decoded
                   | None \<Rightarrow> RawStdEncoding_DecodeString fasParam)))"

text \<open>Step 3 of \<^verbatim>\<open>HandleFAS\<close>: cleaning the decoded text.\<close>

definition clean_v2 :: "string \<Rightarrow> string" where
  "clean_v2 decoded =
     TrimRight (strip_null (TrimRight (filter printable decoded) '' ,'')) '' ,''"

text \<open>Steps 4 to 8: parsing, the ARP fallback, and normalising the fields.\<close>

definition fields_v2 :: "login_env \<Rightarrow> string \<Rightarrow> string \<Rightarrow> FASData" where
  "fields_v2 e remoteHost rawString =
     (let fasData = parseFASData_v2 rawString;
          fasData1 =
            (if f_ClientMAC fasData = []
             then (let ip = (if f_ClientIP fasData = [] then remoteHost else f_ClientIP fasData)
                   in fasData\<lparr>f_ClientIP := ip, f_ClientMAC := e_getMACFromIP e ip\<rparr>)
             else fasData);
          fasData2 = fasData1\<lparr>f_ClientMAC := normalizeMAC (f_ClientMAC fasData1)\<rparr>;
          fasData3 = fasData2\<lparr>f_GatewayName := safeURLUnescape (f_GatewayName fasData2),
                              f_OriginURL := safeURLUnescape (f_OriginURL fasData2),
                              f_AuthDir := safeURLUnescape (f_AuthDir fasData2)\<rparr>
      in fasData3\<lparr>f_HID := sanitizeHeaderValue (f_HID fasData3),
                   f_ClientMAC := sanitizeHeaderValue (f_ClientMAC fasData3),
                   f_ClientIP := sanitizeHeaderValue (f_ClientIP fasData3),
                   f_GatewayName := sanitizeHeaderValue (f_GatewayName fasData3),
                   f_AuthDir := sanitizeHeaderValue (f_AuthDir fasData3),
                   f_OriginURL := sanitizeHeaderValue (f_OriginURL fasData3)\<rparr>)"

text \<open>\<^verbatim>\<open>url.Values.Encode\<close> writes the keys in sorted order.\<close>

definition portalURL_v2 :: "login_env \<Rightarrow> FASData \<Rightarrow> string" where
  "portalURL_v2 e fasData =
     ''http://'' @ e_GatewayIP e @ '':'' @ e_Port e @ ''/portal?''
     @ ''authdir='' @ QueryEscape (f_AuthDir fasData)
     @ ''&gatewayname='' @ QueryEscape (f_GatewayName fasData)
     @ ''&hid='' @ QueryEscape (f_HID fasData)
     @ ''&ip='' @ QueryEscape (f_ClientIP fasData)
     @ ''&mac='' @ QueryEscape (f_ClientMAC fasData)
     @ ''&originurl='' @ QueryEscape (f_OriginURL fasData)"

definition HandleFAS_v2 :: "login_env \<Rightarrow> string \<Rightarrow> string \<Rightarrow> response" where
  "HandleFAS_v2 e remoteHost fasParam =
     (if fasParam = [] then Redirect ''/portal'' 302
      else case decode_v2 (ReplaceAll_char fasParam CHR '' '' ''+'') of
        None \<Rightarrow> Redirect ''/portal'' 302
      | Some decodedBytes \<Rightarrow>
          Redirect (portalURL_v2 e (fields_v2 e remoteHost (clean_v2 decodedBytes))) 302)"

text \<open>Decimal text of a number, for \<^verbatim>\<open>%d\<close>.\<close>

function decimal :: "nat \<Rightarrow> string" where
  "decimal n = (if n < 10 then [digit_char n] else decimal (n div 10) @ [digit_char n])"
  by pat_completeness auto
termination
  by (relation "measure id") auto

declare decimal.simps [simp del]

definition Itoa :: "goint \<Rightarrow> string" where
  "Itoa x = (if word_sless x 0 then ''-'' @ decimal (nat (- sint x)) else decimal (nat (sint x)))"

definition HandleAuth_v2_child ::
  "login_env \<Rightarrow> bool \<Rightarrow> AuthRequest \<Rightarrow> world \<Rightarrow> response \<times> world" where
  "HandleAuth_v2_child e isJSON req w =
     (case AuthenticateChild (e_CheckPassword e) (r_Username req) (r_Password req) (w_store w) of
        Inl err \<Rightarrow>
          (if isJSON then ErrorJSON 401 ''Invalid username or password''
           else Redirect (errorURL req ''Invalid username or password'') 302, w)
      | Inr child \<Rightarrow>
          if word_sle (RemainingMinutes child) 0
          then (if isJSON then ErrorJSON 403 ''No time remaining for today''
                else Redirect (errorURL req ''No time remaining for today'') 302, w)
          else if schedule_forbids (e_Wall e) child (w_store w)
          then (if isJSON then ErrorJSON 403 ''Internet access not allowed at this time''
                else Redirect (errorURL req ''Internet access not allowed at this time'') 302, w)
          else
            (let discover = (r_MAC req \<noteq> [] \<and> \<not> HasDevice child (r_MAC req));
                 child1 = (if discover
                           then AddDevice (e_FirstSeen e) (r_MAC req)
                                  (''Device '' @ decimal (length (c_Devices child) + 1)) child
                           else child);
                 w1 = (if discover then w\<lparr>w_store := SaveChild child1 (w_store w)\<rparr> else w);
                 session = new_session e child1 req;
                 w2 = w1\<lparr>w_store := SaveSession session (w_store w1)\<rparr>;
                 remainingMin = RemainingMinutes child1;
                 w3 = (if r_MAC req \<noteq> []
                       then snd (ndsctl_exec (e_fails e) (NdsAuth (r_MAC req) remainingMin 0 0)
                                  (snd (ndsctl_exec (e_fails e) (NdsDeauth (r_MAC req)) w2)))
                       else w2)
             in (if isJSON then ChildJSON (c_Name child1) remainingMin (r_OriginURL req)
                 else Redirect
                        ((if r_OriginURL req = [] \<or> r_OriginURL req = ''null''
                          then ''http://'' @ e_GatewayIP e @ '':8080/portal?success=1''
                          else r_OriginURL req)
                         @ ''&child_name='' @ QueryEscape (c_Name child1)
                         @ ''&remaining='' @ Itoa remainingMin)
                        302,
                 w3)))"

text \<open>\<^verbatim>\<open>HandleAuth\<close> of the second handler, from the ARP fallback on, for the parsed request.\<close>

definition HandleAuth_v2_login ::
  "login_env \<Rightarrow> bool \<Rightarrow> string \<Rightarrow> AuthRequest \<Rightarrow> world \<Rightarrow> response \<times> world" where
  "HandleAuth_v2_login e isJSON remoteHost req0 w =
     (let mac0 = (if r_MAC req0 = []
                  then e_getMACFromIP e (if r_IP req0 = [] then remoteHost else r_IP req0)
                  else r_MAC req0);
          req = req0\<lparr>r_MAC := (if mac0 \<noteq> [] then normalizeMAC mac0 else mac0)\<rparr>
      in case AuthenticateAdmin (e_CheckPassword e) (r_Username req) (r_Password req) (w_store w) of
           Inr admin \<Rightarrow>
             (case e_GenerateToken e admin of
                None \<Rightarrow> (ErrorJSON 500 ''authentication error'', w)
              | Some token \<Rightarrow>
                  (let w1 = (if r_MAC req \<noteq> []
                             then snd (ndsctl_exec (e_fails e) (NdsAuth (r_MAC req) 0 0 0)
                                        (snd (ndsctl_exec (e_fails e) (NdsDeauth (r_MAC req)) w)))
                             else w)
                   in (if isJSON
                       then AdminJSON token (e_JWTExpiryHours e * 3600) (u_ForcePasswordChange admin)
                       else Redirect
                              (''/portal?auth_type=admin&token='' @ QueryEscape token
                               @ ''&force_password_change=''
                               @ (if u_ForcePasswordChange admin then ''true'' else ''false''))
                              302,
                       w1)))
         | Inl err \<Rightarrow> HandleAuth_v2_child e isJSON req w)"

definition HandleAuth_v2 :: "login_env \<Rightarrow> http_request \<Rightarrow> world \<Rightarrow> response \<times> world" where
  "HandleAuth_v2 e r w =
     (if rq_Method r \<noteq> ''POST''
      then (if rq_Method r = ''GET'' then (Redirect ''/portal'' 302, w)
            else (ErrorJSON 405 ''method not allowed'', w))
      else if Contains (rq_ContentType r) ''application/json''
      then (case rq_JSON r of
              None \<Rightarrow> (ErrorJSON 400 ''invalid request'', w)
            | Some req \<Rightarrow> HandleAuth_v2_login e True (rq_RemoteHost r) req w)
      else HandleAuth_v2_login e False (rq_RemoteHost r) (rq_Form r) w)"

section \<open>Example data\<close>

definition monday_block :: TimeBlock where
  "monday_block =
     \<lparr>b_DayOfWeek = 1, b_StartTime = ''09:00'', b_EndTime = ''17:00'', b_FilterMode = ''normal''\<rparr>"

definition monday_schedule :: Schedule where
  "monday_schedule =
     \<lparr>sch_ID = ''sch1'', sch_Name = ''weekday'', sch_TimeBlocks = [monday_block],
      sch_IsDefault = False, sch_CreatedAt = 0, sch_UpdatedAt = 0\<rparr>"

definition kid :: Child where
  "kid =
     \<lparr>c_ID = ''c1'', c_Username = ''kid'', c_PasswordHash = ''hash1'', c_Name = ''Kid'',
      c_DailyQuotaMin = 120, c_UsedTodayMin = 0, c_FilterMode = ''normal'',
      c_ScheduleID = [], c_Devices = [], c_LastResetDate = ''2026-01-05'',
      c_IsActive = True, c_CreatedAt = 0, c_UpdatedAt = 0\<rparr>"

definition sis :: Child where
  "sis =
     \<lparr>c_ID = ''c2'', c_Username = ''sis'', c_PasswordHash = ''hash2'', c_Name = ''Sis'',
      c_DailyQuotaMin = 10, c_UsedTodayMin = 5, c_FilterMode = ''normal'',
      c_ScheduleID = [], c_Devices = [], c_LastResetDate = ''2026-01-04'',
      c_IsActive = True, c_CreatedAt = 0, c_UpdatedAt = 0\<rparr>"

definition session_of :: "string \<Rightarrow> Child \<Rightarrow> string \<Rightarrow> gotime \<Rightarrow> bool \<Rightarrow> Session" where
  "session_of i c mac started active =
     \<lparr>s_ID = i, s_ChildID = c_ID c, s_ChildName = c_Name c, s_MAC = mac, s_IP = ''10.0.0.5'',
      s_StartedAt = started, s_LastTickAt = 0, s_IsActive = active, s_SessionToken = []\<rparr>"

definition store0 :: Storage where
  "store0 = \<lparr>st_admins = [], st_children = [kid, sis], st_sessions = [], st_schedules = []\<rparr>"

definition world_of :: "Storage \<Rightarrow> world" where
  "world_of st = \<lparr>w_store = st, w_nds = [], w_log = []\<rparr>"

definition never_fails :: "nat \<Rightarrow> bool" where
  "never_fails k = False"






section \<open>Example requests\<close>

definition accept_all :: "string \<Rightarrow> string \<Rightarrow> bool" where
  "accept_all password hash = True"

definition no_arp :: "string \<Rightarrow> string" where
  "no_arp ip = []"

definition token_for :: "User \<Rightarrow> string option" where
  "token_for admin = Some (''token-'' @ u_ID admin)"

definition env_of :: "string \<Rightarrow> gotime \<Rightarrow> login_env" where
  "env_of i started =
     \<lparr>e_CheckPassword = accept_all, e_GenerateID = i, e_FirstSeen = started,
      e_StartedAt = started, e_Wall = \<lparr>wc_Weekday = 1, wc_Hour = 12, wc_Minute = 0\<rparr>,
      e_fails = never_fails, e_getMACFromIP = no_arp, e_GenerateToken = token_for,
      e_JWTExpiryHours = 24, e_GatewayIP = ''192.168.2.1'', e_Port = ''8080''\<rparr>"

definition login_form :: "string \<Rightarrow> string \<Rightarrow> AuthRequest" where
  "login_form username mac =
     \<lparr>r_Username = username, r_Password = ''secret'', r_HID = ''h1'', r_MAC = mac,
      r_IP = ''10.0.0.5'', r_AuthDir = ''opennds_auth'', r_OriginURL = []\<rparr>"

definition post_form :: "AuthRequest \<Rightarrow> http_request" where
  "post_form req =
     \<lparr>rq_Method = ''POST'', rq_ContentType = ''application/x-www-form-urlencoded'',
      rq_JSON = None, rq_Form = req, rq_RemoteHost = ''10.0.0.5''\<rparr>"

definition post_json :: "AuthRequest \<Rightarrow> http_request" where
  "post_json req =
     \<lparr>rq_Method = ''POST'', rq_ContentType = ''application/json'',
      rq_JSON = Some req, rq_Form = login_form [] [], rq_RemoteHost = ''10.0.0.5''\<rparr>"

text \<open>The same child logs in twice from the same MAC.\<close>

definition first_login :: world where
  "first_login =
     snd (HandleAuth (env_of ''s1'' 1000)
            (post_form (login_form ''kid'' ''aa:bb:cc:dd:ee:ff'')) (world_of store0))"

definition second_login :: world where
  "second_login =
     snd (HandleAuth (env_of ''s2'' 2000)
            (post_form (login_form ''kid'' ''aa:bb:cc:dd:ee:ff'')) first_login)"

definition parent :: User where
  "parent =
     \<lparr>u_ID = ''a1'', u_Username = ''parent'', u_PasswordHash = ''hash0'',
      u_DisplayName = ''Administrator'', u_Role = ''super'', u_ForcePasswordChange = False,
      u_CreatedAt = 0, u_UpdatedAt = 0\<rparr>"

definition store1 :: Storage where
  "store1 = store0\<lparr>st_admins := [parent]\<rparr>"

definition payload :: string where
  "payload =
     ''clientmac=AA:BB:CC:DD:EE:FF, clientip=10.0.0.5, originurl=http://example.com/(null)''"

definition payload_b64 :: string where
  "payload_b64 =
     ''Y2xpZW50bWFjPUFBOkJCOkNDOkREOkVFOkZGLCBjbGllbnRpcD0xMC4wLjAuNSwgb3JpZ2ludXJsPWh0dHA6Ly9leGFtcGxlLmNvbS8obnVsbCk=''"

section \<open>Facts about the store\<close>

lemma ListSessions_loop_filter:
  "ListSessions_loop acc xs = acc @ filter s_IsActive xs"
  by (induction xs arbitrary: acc) simp_all

lemma ClearInactiveSessions_loop_filter:
  "ClearInactiveSessions_loop acc xs = acc @ filter s_IsActive xs"
  by (induction xs arbitrary: acc) simp_all

lemma ListSessions_filter: "ListSessions st = filter s_IsActive (st_sessions st)"
  by (simp add: ListSessions_def ListSessions_loop_filter)

lemma save_by_mem: "x \<in> set (save_by key x xs)"
  by (induction xs) simp_all

lemma save_by_length: "length xs \<le> length (save_by key x xs)"
  by (induction xs) simp_all

lemma IsAllowedNow_loop_iff:
  "IsAllowedNow_loop d t bs \<longleftrightarrow>
     (\<exists>b\<in>set bs. b_DayOfWeek b = d \<and> b_StartTime b \<le> t \<and> t \<le> b_EndTime b)"
  by (induction bs) auto

lemma inverted_block_never:
  fixes t :: string
  assumes "e < s"
  shows "\<not> (s \<le> t \<and> t \<le> e)"
  using assms by (meson leD order_trans)

lemma needsReset_loop_iff:
  "needsReset_loop todayStr cs \<longleftrightarrow> (\<exists>c\<in>set cs. c_LastResetDate c \<noteq> todayStr)"
  by (induction cs) auto

lemma ResetDailyQuotas_loop_map:
  "ResetDailyQuotas_loop dateStr cs =
     map (\<lambda>c. c\<lparr>c_UsedTodayMin := 0, c_LastResetDate := dateStr\<rparr>) cs"
  by (induction cs) simp_all

section \<open>The schedule evaluator\<close>

text \<open>
  Claim C6. For every schedule and every clock reading, \<^verbatim>\<open>IsAllowedNow\<close> is true exactly
  when some time block has the reading's weekday and the reading's "HH:MM" string lies
  between the block's start and end strings in the lexicographic order, both ends
  included. Hence a block whose end is below its start never contributes: dropping all
  such blocks leaves the answer as it is. For the schedule with the single block Monday
  09:00 to 17:00 the answer is true at Monday 09:00 and 17:00 and false at 08:59 and 17:01.
\<close>

theorem IsAllowedNow_iff:
  "(IsAllowedNow wc s \<longleftrightarrow>
      (\<exists>b\<in>set (sch_TimeBlocks s).
         b_DayOfWeek b = of_nat (wc_Weekday wc) \<and>
         b_StartTime b \<le> Format_1504 wc \<and> Format_1504 wc \<le> b_EndTime b))
   \<and> IsAllowedNow wc s =
       IsAllowedNow wc
         (s\<lparr>sch_TimeBlocks := filter (\<lambda>b. \<not> b_EndTime b < b_StartTime b) (sch_TimeBlocks s)\<rparr>)
   \<and> IsAllowedNow \<lparr>wc_Weekday = 1, wc_Hour = 9, wc_Minute = 0\<rparr> monday_schedule
   \<and> IsAllowedNow \<lparr>wc_Weekday = 1, wc_Hour = 17, wc_Minute = 0\<rparr> monday_schedule
   \<and> \<not> IsAllowedNow \<lparr>wc_Weekday = 1, wc_Hour = 8, wc_Minute = 59\<rparr> monday_schedule
   \<and> \<not> IsAllowedNow \<lparr>wc_Weekday = 1, wc_Hour = 17, wc_Minute = 1\<rparr> monday_schedule"
proof -
  have iff: "IsAllowedNow wc s \<longleftrightarrow>
      (\<exists>b\<in>set (sch_TimeBlocks s).
         b_DayOfWeek b = of_nat (wc_Weekday wc) \<and>
         b_StartTime b \<le> Format_1504 wc \<and> Format_1504 wc \<le> b_EndTime b)" for wc s
    by (simp add: IsAllowedNow_def IsAllowedNow_loop_iff)
  have drop: "IsAllowedNow wc s =
       IsAllowedNow wc
         (s\<lparr>sch_TimeBlocks := filter (\<lambda>b. \<not> b_EndTime b < b_StartTime b) (sch_TimeBlocks s)\<rparr>)"
    unfolding iff using inverted_block_never by auto
  have ex: "IsAllowedNow \<lparr>wc_Weekday = 1, wc_Hour = 9, wc_Minute = 0\<rparr> monday_schedule"
    "IsAllowedNow \<lparr>wc_Weekday = 1, wc_Hour = 17, wc_Minute = 0\<rparr> monday_schedule"
    "\<not> IsAllowedNow \<lparr>wc_Weekday = 1, wc_Hour = 8, wc_Minute = 59\<rparr> monday_schedule"
    "\<not> IsAllowedNow \<lparr>wc_Weekday = 1, wc_Hour = 17, wc_Minute = 1\<rparr> monday_schedule"
    by (simp_all add: IsAllowedNow_def monday_schedule_def monday_block_def Format_1504_def
        two_digits_def digit_char_def)
  show ?thesis using iff drop ex by blast
qed

theorem IsAllowedNow_iff_witness:
  "IsAllowedNow \<lparr>wc_Weekday = 1, wc_Hour = 12, wc_Minute = 30\<rparr> monday_schedule
   \<and> \<not> IsAllowedNow \<lparr>wc_Weekday = 2, wc_Hour = 12, wc_Minute = 30\<rparr> monday_schedule"
  using IsAllowedNow_iff [of "\<lparr>wc_Weekday = 1, wc_Hour = 12, wc_Minute = 30\<rparr>" monday_schedule]
    IsAllowedNow_iff [of "\<lparr>wc_Weekday = 2, wc_Hour = 12, wc_Minute = 30\<rparr>" monday_schedule]
  by (simp add: monday_schedule_def monday_block_def Format_1504_def two_digits_def
      digit_char_def)

section \<open>Listing sessions\<close>

text \<open>
  Claim C10. \<^verbatim>\<open>ListSessions\<close> returns exactly the stored sessions whose \<^verbatim>\<open>IsActive\<close>
  flag is true, in store order. A session saved with the flag cleared is still in the
  store but is not in the list, and \<^verbatim>\<open>ClearInactiveSessions\<close> leaves in the store
  exactly the sessions that \<^verbatim>\<open>ListSessions\<close> returned.
\<close>

theorem ListSessions_only_active:
  "ListSessions st = filter s_IsActive (st_sessions st)
   \<and> (sess\<lparr>s_IsActive := False\<rparr> \<in> set (st_sessions (SaveSession (sess\<lparr>s_IsActive := False\<rparr>) st))
      \<and> sess\<lparr>s_IsActive := False\<rparr> \<notin> set (ListSessions (SaveSession (sess\<lparr>s_IsActive := False\<rparr>) st)))
   \<and> st_sessions (ClearInactiveSessions st) = ListSessions st"
  by (simp add: ListSessions_filter SaveSession_def save_by_mem ClearInactiveSessions_def
      ClearInactiveSessions_loop_filter)

theorem ListSessions_only_active_witness:
  "ListSessions
     (store0\<lparr>st_sessions := [session_of ''s1'' kid ''aa:bb:cc:dd:ee:01'' 100 False,
                              session_of ''s2'' sis ''aa:bb:cc:dd:ee:02'' 200 True]\<rparr>)
   = [session_of ''s2'' sis ''aa:bb:cc:dd:ee:02'' 200 True]"
  using ListSessions_only_active
    [of "store0\<lparr>st_sessions := [session_of ''s1'' kid ''aa:bb:cc:dd:ee:01'' 100 False,
                                 session_of ''s2'' sis ''aa:bb:cc:dd:ee:02'' 200 True]\<rparr>"]
  by (simp add: session_of_def)

section \<open>The daily reset\<close>

text \<open>
  Claim C4. A tick starts with the daily reset. If some child's \<^verbatim>\<open>last_reset_date\<close>
  differs from today's date string, every child gets \<^verbatim>\<open>used_today_minutes\<close> 0 and
  \<^verbatim>\<open>last_reset_date\<close> today, and nothing else in a child changes; if no child is stale,
  the reset changes nothing at all.
\<close>

theorem checkDailyReset_global:
  "((\<exists>c\<in>set (st_children (w_store w)). c_LastResetDate c \<noteq> todayStr) \<longrightarrow>
      st_children (w_store (checkDailyReset todayStr w)) =
        map (\<lambda>c. c\<lparr>c_UsedTodayMin := 0, c_LastResetDate := todayStr\<rparr>) (st_children (w_store w)))
   \<and> ((\<forall>c\<in>set (st_children (w_store w)). c_LastResetDate c = todayStr) \<longrightarrow>
        checkDailyReset todayStr w = w)
   \<and> tick fails now todayStr rd w =
       tick_loop fails now rd (checkDailyReset todayStr w)
         (ListSessions (w_store (checkDailyReset todayStr w)))"
  by (auto simp add: checkDailyReset_def needsReset_loop_iff ResetDailyQuotas_loop_map
      ResetDailyQuotas_def ListChildren_def log_Printf_def tick_def Let_def)

theorem checkDailyReset_global_witness:
  "st_children (w_store (checkDailyReset ''2026-01-05'' (world_of store0))) =
     [kid, sis\<lparr>c_UsedTodayMin := 0, c_LastResetDate := ''2026-01-05''\<rparr>]
   \<and> checkDailyReset ''2026-01-05'' (world_of (store0\<lparr>st_children := [kid]\<rparr>)) =
       world_of (store0\<lparr>st_children := [kid]\<rparr>)"
  using checkDailyReset_global [of "world_of store0" "''2026-01-05''"]
    checkDailyReset_global [of "world_of (store0\<lparr>st_children := [kid]\<rparr>)" "''2026-01-05''"]
  by (simp add: world_of_def store0_def kid_def sis_def)

section \<open>Facts about one pass of the reconciliation loop\<close>





lemma find_save_by_other:
  "i \<noteq> key x \<Longrightarrow> find (\<lambda>y. key y = i) (save_by key x xs) = find (\<lambda>y. key y = i) xs"
  by (induction xs) auto





lemma GetSession_SaveSession_other:
  "i \<noteq> s_ID s \<Longrightarrow> GetSession i (SaveSession s st) = GetSession i st"
  by (simp add: GetSession_def SaveSession_def find_save_by_other)


lemma GetSession_SaveChild: "GetSession i (SaveChild c st) = GetSession i st"
  by (simp add: GetSession_def SaveChild_def)















lemma not_sle_iff_sless: "\<not> word_sle (a::goint) b \<longleftrightarrow> word_sless b a"
  by (auto simp add: word_sle_eq word_sless_alt)



















section \<open>Accrual of elapsed minutes\<close>



section \<open>Quota enforcement by one tick\<close>





section \<open>Facts about the login handlers\<close>

lemma RemainingMinutes_AddDevice:
  "RemainingMinutes (AddDevice seen mac name c) = RemainingMinutes c"
  by (simp add: RemainingMinutes_def AddDevice_def)

lemma find_append_Some: "find P xs = Some x \<Longrightarrow> find P (xs @ ys) = Some x"
  by (induction xs) (auto split: if_splits)

lemma save_by_fresh: "key x \<notin> key ` set xs \<Longrightarrow> save_by key x xs = xs @ [x]"
  by (induction xs) auto

lemma HandleAuth_cases:
  "HandleAuth e r w = (ErrorJSON 405 ''method not allowed'', w)
   \<or> HandleAuth e r w = (ErrorJSON 400 ''invalid request'', w)
   \<or> (\<exists>req. (rq_JSON r = Some req \<or> req = rq_Form r) \<and> HandleAuth e r w = HandleAuth_login e req w)"
  by (auto simp add: HandleAuth_def split: option.splits)

lemma HandleAuth_login_nds:
  "(\<exists>child. AuthenticateChild (e_CheckPassword e) (r_Username req) (r_Password req) (w_store w)
              = Inr child
           \<and> word_sless 0 (RemainingMinutes child)
           \<and> w_nds (snd (HandleAuth_login e req w))
               = w_nds w @ [NdsAuth (r_MAC req) (RemainingMinutes child) 0 0])
   \<or> w_nds (snd (HandleAuth_login e req w)) = w_nds w"
proof (cases "AuthenticateChild (e_CheckPassword e) (r_Username req) (r_Password req) (w_store w)")
  case (Inl err)
  then show ?thesis by (simp add: HandleAuth_login_def)
next
  case (Inr child)
  show ?thesis
  proof (cases "word_sle (RemainingMinutes child) 0 \<or> schedule_forbids (e_Wall e) child (w_store w)")
    case True
    then show ?thesis using Inr by (auto simp add: HandleAuth_login_def)
  next
    case False
    then have pos: "word_sless 0 (RemainingMinutes child)"
      by (simp add: not_sle_iff_sless)
    have "w_nds (snd (HandleAuth_login e req w))
               = w_nds w @ [NdsAuth (r_MAC req) (RemainingMinutes child) 0 0]"
      using Inr False
      by (simp add: HandleAuth_login_def Let_def ndsctl_exec_def log_Printf_def
          RemainingMinutes_AddDevice)
    with Inr pos show ?thesis by blast
  qed
qed

lemma HandleAuth_login_sessions:
  assumes fresh: "e_GenerateID e \<notin> s_ID ` set (st_sessions (w_store w))"
  shows "st_sessions (w_store (snd (HandleAuth_login e req w))) = st_sessions (w_store w)
    \<or> (\<exists>session. s_IsActive session \<and> s_ID session = e_GenerateID e \<and> s_MAC session = r_MAC req
         \<and> st_sessions (w_store (snd (HandleAuth_login e req w)))
             = st_sessions (w_store w) @ [session])"
proof (cases "AuthenticateChild (e_CheckPassword e) (r_Username req) (r_Password req) (w_store w)")
  case (Inl err)
  then show ?thesis by (simp add: HandleAuth_login_def)
next
  case (Inr child)
  show ?thesis
  proof (cases "word_sle (RemainingMinutes child) 0 \<or> schedule_forbids (e_Wall e) child (w_store w)")
    case True
    then show ?thesis using Inr by (auto simp add: HandleAuth_login_def)
  next
    case False
    let ?child1 = "if \<not> HasDevice child (r_MAC req)
                   then AddDevice (e_FirstSeen e) (r_MAC req) ''Auto-discovered device'' child
                   else child"
    let ?session = "new_session e ?child1 req"
    have "st_sessions (w_store (snd (HandleAuth_login e req w)))
        = save_by s_ID ?session (st_sessions (w_store w))"
      using Inr False
      by (simp add: HandleAuth_login_def Let_def ndsctl_exec_def log_Printf_def SaveSession_def
          SaveChild_def)
    moreover have "s_ID ?session = e_GenerateID e" "s_IsActive ?session" "s_MAC ?session = r_MAC req"
      by (simp_all add: new_session_def)
    ultimately show ?thesis using save_by_fresh [of s_ID ?session "st_sessions (w_store w)"] fresh
      by (metis (no_types, lifting))
  qed
qed

lemmas login_eval =
  HandleAuth_def HandleAuth_login_def post_form_def post_json_def login_form_def env_of_def
  world_of_def store0_def store1_def kid_def sis_def parent_def AuthenticateChild_def
  AuthenticateAdmin_def GetChildByUsername_def GetAdminByUsername_def accept_all_def
  RemainingMinutes_def word_sless_alt word_sle_eq schedule_forbids_def HasDevice_def
  AddDevice_def SaveChild_def SaveSession_def new_session_def Let_def ndsctl_exec_def
  never_fails_def log_Printf_def ListSessions_filter HasPrefix_def first_login_def
  second_login_def GetSessionByMAC_def

section \<open>Sessions per MAC after a login\<close>

text \<open>
  Claim C1, as amended. A login through \<^verbatim>\<open>HandleAuth\<close> that draws a fresh session id
  either leaves the stored sessions as they are or appends one new active session for
  the submitted MAC; it never changes a stored session. Every session that was active
  before the login is active after it, and \<^verbatim>\<open>GetSessionByMAC\<close> still returns the
  session it returned before.
\<close>

theorem HandleAuth_keeps_sessions:
  assumes fresh: "e_GenerateID e \<notin> s_ID ` set (st_sessions (w_store w))"
  shows "(st_sessions (w_store (snd (HandleAuth e r w))) = st_sessions (w_store w)
      \<or> (\<exists>session req. (rq_JSON r = Some req \<or> req = rq_Form r)
           \<and> s_IsActive session \<and> s_ID session = e_GenerateID e \<and> s_MAC session = r_MAC req
           \<and> st_sessions (w_store (snd (HandleAuth e r w))) = st_sessions (w_store w) @ [session]))
    \<and> (\<forall>s\<in>set (ListSessions (w_store w)). s \<in> set (ListSessions (w_store (snd (HandleAuth e r w)))))
    \<and> (\<forall>mac s. GetSessionByMAC mac (w_store w) = Some s \<longrightarrow>
          GetSessionByMAC mac (w_store (snd (HandleAuth e r w))) = Some s)"
proof -
  have a: "st_sessions (w_store (snd (HandleAuth e r w))) = st_sessions (w_store w)
      \<or> (\<exists>session req. (rq_JSON r = Some req \<or> req = rq_Form r)
           \<and> s_IsActive session \<and> s_ID session = e_GenerateID e \<and> s_MAC session = r_MAC req
           \<and> st_sessions (w_store (snd (HandleAuth e r w))) = st_sessions (w_store w) @ [session])"
  proof -
    consider (refused) "HandleAuth e r w = (ErrorJSON 405 ''method not allowed'', w)"
      | (invalid) "HandleAuth e r w = (ErrorJSON 400 ''invalid request'', w)"
      | (login) req where "rq_JSON r = Some req \<or> req = rq_Form r"
          "HandleAuth e r w = HandleAuth_login e req w"
      using HandleAuth_cases [of e r w] by blast
    then show ?thesis
    proof cases
      case refused
      then show ?thesis by simp
    next
      case invalid
      then show ?thesis by simp
    next
      case login
      from HandleAuth_login_sessions [OF fresh, of req] show ?thesis
        unfolding login(2) using login(1) by blast
    qed
  qed
  then obtain ys where ys: "st_sessions (w_store (snd (HandleAuth e r w))) = st_sessions (w_store w) @ ys"
    by auto
  have b: "\<forall>s\<in>set (ListSessions (w_store w)). s \<in> set (ListSessions (w_store (snd (HandleAuth e r w))))"
    by (simp add: ListSessions_filter ys)
  have c: "\<forall>mac s. GetSessionByMAC mac (w_store w) = Some s \<longrightarrow>
          GetSessionByMAC mac (w_store (snd (HandleAuth e r w))) = Some s"
    by (simp add: GetSessionByMAC_def ys find_append_Some)
  show ?thesis using a b c by blast
qed

theorem HandleAuth_keeps_sessions_witness:
  "map s_ID (st_sessions (w_store second_login)) = [''s1'', ''s2'']
   \<and> map s_ID (st_sessions (w_store first_login)) = [''s1'']
   \<and> map s_ID (ListSessions (w_store second_login)) = [''s1'', ''s2'']
   \<and> map_option s_ID (GetSessionByMAC ''aa:bb:cc:dd:ee:ff'' (w_store second_login)) = Some ''s1''"
  using HandleAuth_keeps_sessions
    [of "env_of ''s2'' 2000" first_login "post_form (login_form ''kid'' ''aa:bb:cc:dd:ee:ff'')"]
  by (simp add: login_eval)

text \<open>
  Claim C1 as stated fails: after two successful logins of the same child from the same
  MAC, both sessions are active and carry that MAC.
\<close>

theorem two_logins_counterexample:
  "map s_MAC (ListSessions (w_store second_login)) = [''aa:bb:cc:dd:ee:ff'', ''aa:bb:cc:dd:ee:ff'']
   \<and> map s_ID (ListSessions (w_store second_login)) = [''s1'', ''s2'']
   \<and> map s_IsActive (st_sessions (w_store second_login)) = [True, True]"
  by (simp add: login_eval)

section \<open>The minutes passed to the authorize call\<close>

text \<open>
  Claim C2. Whatever the request, \<^verbatim>\<open>HandleAuth\<close> calls the external tool at most once:
  either it makes no call, or it makes the one call \<^verbatim>\<open>Auth(mac, minutes, 0, 0)\<close> for a
  child that authenticated, with \<open>minutes\<close> equal to the child's \<^verbatim>\<open>RemainingMinutes()\<close>
  and greater than 0; so no call with 0 minutes is made. A login of a child whose
  \<^verbatim>\<open>RemainingMinutes()\<close> is not above 0 gets the redirect with the message
  "No time remaining for today" and changes nothing.
\<close>

theorem HandleAuth_authorizes_remaining:
  "((\<exists>req child.
        (rq_JSON r = Some req \<or> req = rq_Form r)
      \<and> AuthenticateChild (e_CheckPassword e) (r_Username req) (r_Password req) (w_store w)
          = Inr child
      \<and> word_sless 0 (RemainingMinutes child)
      \<and> w_nds (snd (HandleAuth e r w))
          = w_nds w @ [NdsAuth (r_MAC req) (RemainingMinutes child) 0 0])
    \<or> w_nds (snd (HandleAuth e r w)) = w_nds w)
   \<and> (\<forall>mac u d. NdsAuth mac 0 u d
          \<notin> set (drop (length (w_nds w)) (w_nds (snd (HandleAuth e r w)))))
   \<and> (AuthenticateChild (e_CheckPassword e) (r_Username req) (r_Password req) (w_store w)
         = Inr child \<and> word_sle (RemainingMinutes child) 0 \<longrightarrow>
       HandleAuth_login e req w = (Redirect (errorURL req ''No time remaining for today'') 302, w))"
proof -
  have a: "(\<exists>req child.
        (rq_JSON r = Some req \<or> req = rq_Form r)
      \<and> AuthenticateChild (e_CheckPassword e) (r_Username req) (r_Password req) (w_store w)
          = Inr child
      \<and> word_sless 0 (RemainingMinutes child)
      \<and> w_nds (snd (HandleAuth e r w))
          = w_nds w @ [NdsAuth (r_MAC req) (RemainingMinutes child) 0 0])
    \<or> w_nds (snd (HandleAuth e r w)) = w_nds w"
  proof -
    consider (refused) "HandleAuth e r w = (ErrorJSON 405 ''method not allowed'', w)"
      | (invalid) "HandleAuth e r w = (ErrorJSON 400 ''invalid request'', w)"
      | (login) req where "rq_JSON r = Some req \<or> req = rq_Form r"
          "HandleAuth e r w = HandleAuth_login e req w"
      using HandleAuth_cases [of e r w] by blast
    then show ?thesis
    proof cases
      case refused
      then show ?thesis by simp
    next
      case invalid
      then show ?thesis by simp
    next
      case login
      from HandleAuth_login_nds [of e req w] show ?thesis
        unfolding login(2) using login(1) by blast
    qed
  qed
  have b: "\<forall>mac u d. NdsAuth mac 0 u d
          \<notin> set (drop (length (w_nds w)) (w_nds (snd (HandleAuth e r w))))"
    using a by (auto simp add: word_sless_alt)
  have c: "AuthenticateChild (e_CheckPassword e) (r_Username req) (r_Password req) (w_store w)
         = Inr child \<and> word_sle (RemainingMinutes child) 0 \<longrightarrow>
       HandleAuth_login e req w = (Redirect (errorURL req ''No time remaining for today'') 302, w)"
    by (simp add: HandleAuth_login_def)
  show ?thesis using a b c by blast
qed

theorem HandleAuth_authorizes_remaining_witness:
  "w_nds first_login = [NdsAuth ''aa:bb:cc:dd:ee:ff'' 120 0 0]
   \<and> HandleAuth_login (env_of ''s1'' 1000) (login_form ''kid'' ''aa:bb:cc:dd:ee:ff'')
        (world_of (store0\<lparr>st_children := [kid\<lparr>c_UsedTodayMin := 120\<rparr>]\<rparr>))
      = (Redirect (errorURL (login_form ''kid'' ''aa:bb:cc:dd:ee:ff'') ''No time remaining for today'') 302,
         world_of (store0\<lparr>st_children := [kid\<lparr>c_UsedTodayMin := 120\<rparr>]\<rparr>))"
  using HandleAuth_authorizes_remaining
    [of "post_form (login_form ''kid'' ''aa:bb:cc:dd:ee:ff'')" "env_of ''s1'' 1000"
        "world_of store0"]
    HandleAuth_authorizes_remaining
    [of _ "env_of ''s1'' 1000" "world_of (store0\<lparr>st_children := [kid\<lparr>c_UsedTodayMin := 120\<rparr>]\<rparr>)"
        "login_form ''kid'' ''aa:bb:cc:dd:ee:ff''" "kid\<lparr>c_UsedTodayMin := 120\<rparr>"]
  by (simp add: login_eval)

section \<open>The FAS entry point and the handshake payload\<close>

lemmas fas_eval =
  parseFASData_def parseFASData_v2_def Split_def HasPrefix_def SplitN2_def TrimSpace_def
  isSpace_def switch_key_def FASData_zero_def ToLower_def isUpper_def isLower_def isDigit_def
  byte_char_def byte_of_def normalizeMAC_def ReplaceAll_char_def Let_def safeURLUnescape_def
  sanitizeHeaderValue_def printable_def QueryEscape_def shouldEscape_def hex_upper_def
  TrimRight_def

lemma payload_encoded: "StdEncoding_EncodeToString payload = payload_b64"
  by (simp add: StdEncoding_EncodeToString_def payload_def payload_b64_def byte_of_def
      encodeStd_def)

lemma payload_decoded: "StdEncoding_DecodeString payload_b64 = Some payload"
  by (simp add: StdEncoding_DecodeString_def DecodeString_def payload_def payload_b64_def
      byte_char_def encodeStd_def)


lemma payload_cleaned:
  "clean_v2 payload =
     ''clientmac=AA:BB:CC:DD:EE:FF, clientip=10.0.0.5, originurl=http://example.com/''"
  by (simp add: clean_v2_def payload_def printable_def TrimRight_def strip_null.simps
      HasPrefix_def)

text \<open>
  The second handler on the same payload: it decodes at the first attempt, the
  \<^verbatim>\<open>(null)\<close> artifact is removed, and the fields come out with the MAC in lower case
  and colon-delimited.
\<close>

lemma HandleFAS_v2_roundtrip:
  "decode_v2 (ReplaceAll_char (StdEncoding_EncodeToString payload) CHR '' '' ''+'') = Some payload
   \<and> fields_v2 (env_of ''s1'' 0) ''10.0.0.9'' (clean_v2 payload) =
       FASData_zero\<lparr>f_ClientIP := ''10.0.0.5'', f_ClientMAC := ''aa:bb:cc:dd:ee:ff'',
                     f_OriginURL := ''http://example.com/''\<rparr>"
proof -
  have "ReplaceAll_char payload_b64 CHR '' '' ''+'' = payload_b64"
    by (simp add: payload_b64_def ReplaceAll_char_def)
  then have "decode_v2 (ReplaceAll_char (StdEncoding_EncodeToString payload) CHR '' '' ''+'')
      = Some payload"
    by (simp add: payload_encoded decode_v2_def payload_decoded)
  moreover have "fields_v2 (env_of ''s1'' 0) ''10.0.0.9'' (clean_v2 payload) =
       FASData_zero\<lparr>f_ClientIP := ''10.0.0.5'', f_ClientMAC := ''aa:bb:cc:dd:ee:ff'',
                     f_OriginURL := ''http://example.com/''\<rparr>"
    by (simp add: payload_cleaned fields_v2_def fas_eval)
  ultimately show ?thesis by simp
qed


text \<open>
  The second handler answers every request by a redirect: an absent payload, and a
  payload that none of its four decodings accepts, by the redirect to \<^verbatim>\<open>/portal\<close>;
  the decodings are tried in the order standard, standard with the padding completed,
  URL-safe, standard without padding, and the first success is taken.
\<close>

lemma HandleFAS_v2_redirects:
  "(\<exists>url. HandleFAS_v2 e h fasParam = Redirect url 302)
   \<and> HandleFAS_v2 e h [] = Redirect ''/portal'' 302
   \<and> (decode_v2 (ReplaceAll_char fasParam CHR '' '' ''+'') = None \<longrightarrow>
        HandleFAS_v2 e h fasParam = Redirect ''/portal'' 302)
   \<and> (decode_v2 p = None \<longleftrightarrow>
        StdEncoding_DecodeString p = None
        \<and> StdEncoding_DecodeString
             (if length p mod 4 \<noteq> 0 then p @ replicate (4 - length p mod 4) CHR ''='' else p) = None
        \<and> URLEncoding_DecodeString p = None
        \<and> RawStdEncoding_DecodeString p = None)
   \<and> (StdEncoding_DecodeString p = Some d \<longrightarrow> decode_v2 p = Some d)"
  by (auto simp add: HandleFAS_v2_def decode_v2_def Let_def split: option.splits)

lemma HandleFAS_v2_unpadded:
  "HandleFAS_v2 (env_of ''s1'' 0) ''10.0.0.9'' ''YQ'' =
     Redirect ''http://192.168.2.1:8080/portal?authdir=&gatewayname=&hid=&ip=10.0.0.9&mac=&originurl='' 302"
proof -
  have pad: "replicate 2 CHR ''='' = ''==''"
    by (simp add: numeral_2_eq_2)
  have "decode_v2 ''YQ'' = Some ''a''"
    by (simp add: decode_v2_def StdEncoding_DecodeString_def DecodeString_def encodeStd_def
        byte_char_def Let_def pad)
  moreover have "clean_v2 ''a'' = ''a''"
    by (simp add: clean_v2_def printable_def TrimRight_def strip_null.simps HasPrefix_def)
  ultimately show ?thesis
    by (simp add: HandleFAS_v2_def fields_v2_def portalURL_v2_def env_of_def no_arp_def fas_eval)
qed


section \<open>Administrators at the captive-portal login\<close>

text \<open>
  The second handler tries the administrators first: when the administrator credentials
  match and a token is issued, the answer carries the token, the store is unchanged, and
  the external tool is called exactly when a MAC is known, to deauthorize and then to
  authorize it with 0 minutes (unlimited); no child record or schedule is read.
\<close>

lemma HandleAuth_v2_admin_first:
  fixes e :: login_env and req0 :: AuthRequest and h :: string
  defines "mac0 \<equiv> (if r_MAC req0 = []
                       then e_getMACFromIP e (if r_IP req0 = [] then h else r_IP req0)
                       else r_MAC req0)"
  defines "mac \<equiv> (if mac0 \<noteq> [] then normalizeMAC mac0 else mac0)"
  assumes admin: "AuthenticateAdmin (e_CheckPassword e) (r_Username req0) (r_Password req0)
                    (w_store w) = Inr admin"
    and token: "e_GenerateToken e admin = Some token"
  shows "w_store (snd (HandleAuth_v2_login e isJSON h req0 w)) = w_store w
    \<and> w_nds (snd (HandleAuth_v2_login e isJSON h req0 w)) =
        w_nds w @ (if mac = [] then [] else [NdsDeauth mac, NdsAuth mac 0 0 0])
    \<and> fst (HandleAuth_v2_login e isJSON h req0 w) =
        (if isJSON
         then AdminJSON token (e_JWTExpiryHours e * 3600) (u_ForcePasswordChange admin)
         else Redirect
                (''/portal?auth_type=admin&token='' @ QueryEscape token
                 @ ''&force_password_change=''
                 @ (if u_ForcePasswordChange admin then ''true'' else ''false''))
                302)"
  using admin token unfolding mac_def mac0_def
  by (simp add: HandleAuth_v2_login_def Let_def ndsctl_exec_def)

lemma HandleAuth_v2_admin_example:
  "HandleAuth_v2 (env_of ''s1'' 1000) (post_json (login_form ''parent'' ''AA-BB-CC-DD-EE-FF''))
     (world_of store1) =
     (AdminJSON ''token-a1'' 86400 False,
      (world_of store1)
        \<lparr>w_nds := [NdsDeauth ''aa:bb:cc:dd:ee:ff'', NdsAuth ''aa:bb:cc:dd:ee:ff'' 0 0 0]\<rparr>)"
  by (simp add: HandleAuth_v2_def HandleAuth_v2_login_def post_json_def login_form_def
      env_of_def world_of_def store1_def store0_def parent_def AuthenticateAdmin_def
      GetAdminByUsername_def accept_all_def token_for_def ndsctl_exec_def never_fails_def
      HasPrefix_def fas_eval)


text \<open>
  Neither handler ends an earlier session of the MAC: two logins of the same child from
  the same MAC through the second handler also leave two active sessions.
\<close>

lemma two_logins_v2:
  "map s_MAC (ListSessions (w_store (snd
      (HandleAuth_v2 (env_of ''s2'' 2000) (post_json (login_form ''kid'' ''aa:bb:cc:dd:ee:ff''))
        (snd (HandleAuth_v2 (env_of ''s1'' 1000)
               (post_json (login_form ''kid'' ''aa:bb:cc:dd:ee:ff'')) (world_of store0)))))))
     = [''aa:bb:cc:dd:ee:ff'', ''aa:bb:cc:dd:ee:ff'']"
  by (simp add: HandleAuth_v2_def HandleAuth_v2_login_def HandleAuth_v2_child_def
      login_eval fas_eval decimal.simps digit_char_def)

end
